theory Spec2Isabelle
  imports Complex_Main
begin

section \<open>Meet-Me-Halfway: route midpoint, travel-time scoring and POI ranking\<close>

text \<open>
  The development embeds the numeric core of the application:
  \<^item> \<open>getMidpoint\<close> of \<open>results/_components/results-map.tsx\<close>, with the haversine
    segment distance it computes inline;
  \<^item> \<open>calculateMidpoint\<close> as given in \<open>app-structure.md\<close>;
  \<^item> the scoring (\<open>calculateTravelTimes\<close>), the category mapping (\<open>getPoiCategory\<close>)
    and the filter and sort pipeline (\<open>sortedAndFilteredPois\<close>) of the
    points-of-interest component.

  JavaScript numbers are IEEE doubles. They are modelled by \<^typ>\<open>real\<close>: every
  statement below is about the exact arithmetic the code approximates, and says nothing
  about rounding, \<open>NaN\<close>, infinities or signed zeros.
\<close>

subsection \<open>Data\<close>

text \<open>A \<open>{ lat, lng }\<close> object: the \<open>Point\<close> interface, and what \<open>getMidpoint\<close> returns.\<close>

record Point =
  lat :: real
  lng :: real

text \<open>
  \<open>RouteData\<close>. A coordinate of the polyline is the array \<open>[lon, lat]\<close>, modelled as a
  pair: \<open>point[0]\<close> is \<open>fst\<close>, \<open>point[1]\<close> is \<open>snd\<close>.
\<close>

record Geometry =
  coordinates :: "(real \<times> real) list"

record RouteData =
  geometry :: Geometry
  duration :: real
  distance :: real

text \<open>What an awaited \<open>getRouteAction\<close> resolves to; \<open>data\<close> is read with \<open>?.\<close>.\<close>

record ActionState =
  isSuccess :: bool
  data :: "RouteData option"

text \<open>
  \<open>PoiResponse\<close> (the fields the component reads), and \<open>PoiWithTravelTimes\<close>, which
  adds optional fields. An absent (\<open>undefined\<close>) field is \<open>None\<close>.
\<close>

record PoiResponse =
  osm_id :: "string option"
  name :: string
  type :: string
  poi_lat :: string
  poi_lon :: string

record PoiWithTravelTimes = PoiResponse +
  travelTimeFromStart :: "real option"
  travelTimeFromEnd :: "real option"
  distanceFromStart :: "real option"
  distanceFromEnd :: "real option"
  totalTravelTime :: "real option"
  travelTimeDifference :: "real option"
  isFavorite :: "bool option"

datatype SortOption = Name | DistanceFromStart | DistanceFromEnd | TotalTime | TimeDifference

datatype FilterOption = All | Food | Activities | Lodging | Other

text \<open>\<open>type MaxTimeDifference = 5 | 10 | 15 | 30 | 999\<close>, in minutes.\<close>

datatype MaxTimeDifference = Max5 | Max10 | Max15 | Max30 | Max999

fun minutes :: "MaxTimeDifference \<Rightarrow> real" where
  "minutes Max5 = 5"
| "minutes Max10 = 10"
| "minutes Max15 = 15"
| "minutes Max30 = 30"
| "minutes Max999 = 999"

text \<open>
  What JavaScript throws or rejects with: a \<open>TypeError\<close> on reading a property of
  \<open>undefined\<close>, and a rejected promise of a server action or a fetch.
\<close>

datatype js_error = TypeError | Rejected

subsection \<open>The route midpoint: \<open>getMidpoint\<close>\<close>

text \<open>
  \<open>Math.atan2\<close> on real numbers. The arguments have no signed zero, so \<open>atan2 0 x\<close>
  for negative \<open>x\<close> is \<open>pi\<close>, and \<open>atan2 0 0\<close> is \<open>0\<close>.
\<close>

definition atan2 :: "real \<Rightarrow> real \<Rightarrow> real" where
  "atan2 y x =
     (if 0 < x then arctan (y / x)
      else if x < 0 then (if 0 \<le> y then arctan (y / x) + pi else arctan (y / x) - pi)
      else if 0 < y then pi / 2
      else if y < 0 then - (pi / 2)
      else 0)"

text \<open>
  Lines 62 to 77 of \<open>results-map.tsx\<close>: the haversine distance between two consecutive
  points of the polyline, as the loop body computes it.
\<close>

definition segmentDistance :: "real \<times> real \<Rightarrow> real \<times> real \<Rightarrow> real" where
  "segmentDistance point1 point2 =
     (let lat1 = snd point1;
          lon1 = fst point1;
          lat2 = snd point2;
          lon2 = fst point2;
          R = 6371000;
          phi1 = (lat1 * pi) / 180;
          phi2 = (lat2 * pi) / 180;
          dphi = ((lat2 - lat1) * pi) / 180;
          dlam = ((lon2 - lon1) * pi) / 180;
          a = sin (dphi / 2) * sin (dphi / 2) +
              cos phi1 * cos phi2 * sin (dlam / 2) * sin (dlam / 2);
          c = 2 * atan2 (sqrt a) (sqrt (1 - a))
      in R * c)"

text \<open>
  The \<open>for\<close> loop of lines 57 to 89, from index \<open>i\<close> with the running total
  \<open>currentDistance\<close>: \<open>Some\<close> is the \<open>return\<close> inside the loop, \<open>None\<close> is the loop
  running to its end. The loop also counts \<open>midpointIndex\<close>, which nothing reads.
  The test \<open>i < coordinates.length - 1\<close> is on integers: an empty array gives \<open>0 < -1\<close>.
  The ratio divides by the length of the segment. On a segment that crosses the threshold
  this length is zero only when the total length is negative; JavaScript then yields a
  ratio that is not finite, which the real numbers do not have.
\<close>

function midpointLoop :: "(real \<times> real) list \<Rightarrow> real \<Rightarrow> nat \<Rightarrow> real \<Rightarrow> Point option" where
  "midpointLoop coords totalDistance i currentDistance =
     (if int i < int (length coords) - 1 then
        (let point1 = coords ! i;
             point2 = coords ! (i + 1);
             lat1 = snd point1;
             lon1 = fst point1;
             lat2 = snd point2;
             lon2 = fst point2;
             segDistance = segmentDistance point1 point2
         in if currentDistance + segDistance > totalDistance / 2 then
              (let ratio = (totalDistance / 2 - currentDistance) / segDistance;
                   midLat = lat1 + ratio * (lat2 - lat1);
                   midLon = lon1 + ratio * (lon2 - lon1)
               in Some \<lparr>lat = midLat, lng = midLon\<rparr>)
            else midpointLoop coords totalDistance (i + 1) (currentDistance + segDistance))
      else None)"
  by pat_completeness auto
termination
  by (relation "measure (\<lambda>(coords, totalDistance, i, currentDistance). length coords - i)") auto

text \<open>
  \<open>getMidpoint\<close>. A \<open>null\<close> or \<open>undefined\<close> route is \<open>None\<close>, and the function then
  returns \<open>null\<close> (\<open>Inr None\<close>). After the loop, \<open>coordinates[middleIndex]\<close> is
  \<open>undefined\<close> when the index is out of range, and reading \<open>[1]\<close> of it throws a
  \<open>TypeError\<close>.
\<close>

definition getMidpoint :: "RouteData option \<Rightarrow> js_error + Point option" where
  "getMidpoint route =
     (case route of
        None \<Rightarrow> Inr None
      | Some r \<Rightarrow>
         (let coords = coordinates (geometry r);
              totalDistance = distance r
          in case midpointLoop coords totalDistance 0 0 of
               Some p \<Rightarrow> Inr (Some p)
             | None \<Rightarrow>
                (let middleIndex = length coords div 2
                 in if middleIndex < length coords
                    then Inr (Some \<lparr>lat = snd (coords ! middleIndex),
                                    lng = fst (coords ! middleIndex)\<rparr>)
                    else Inl TypeError)))"

text \<open>
  The specification's reading of the loop, for comparison with the code: the distance
  accumulated before segment \<open>i\<close> is the sum of the segment distances of the segments
  \<open>0, \<dots>, i - 1\<close>, and the interpolation between two points is linear in both
  coordinates.
\<close>

definition distanceBefore :: "(real \<times> real) list \<Rightarrow> nat \<Rightarrow> real" where
  "distanceBefore coords i = (\<Sum>k<i. segmentDistance (coords ! k) (coords ! Suc k))"

definition interpolate :: "real \<times> real \<Rightarrow> real \<times> real \<Rightarrow> real \<Rightarrow> Point" where
  "interpolate p q ratio =
     \<lparr>lat = snd p + ratio * (snd q - snd p), lng = fst p + ratio * (fst q - fst p)\<rparr>"

subsection \<open>The geometric midpoint: \<open>calculateMidpoint\<close>\<close>

text \<open>
  Modelled from the spec: \<open>toRadians\<close> and \<open>toDegrees\<close>, which \<open>calculateMidpoint\<close>
  calls and the repository's files do not define. The specification says that the points
  are converted to radians and the result back to degrees.
\<close>

definition toRadians :: "real \<Rightarrow> real" where
  "toRadians deg = deg * pi / 180"




subsection \<open>Travel-time scoring: \<open>calculateTravelTimes\<close>\<close>

text \<open>\<open>state.isSuccess ? state.data?.duration : undefined\<close>, and the same for the distance.\<close>

definition durationOf :: "ActionState \<Rightarrow> real option" where
  "durationOf st = (if isSuccess st then map_option duration (data st) else None)"

definition distanceOf :: "ActionState \<Rightarrow> real option" where
  "distanceOf st = (if isSuccess st then map_option distance (data st) else None)"

text \<open>
  Lines 163 to 173: both derived fields are computed from the two travel times under the
  same test \<open>a !== undefined && b !== undefined\<close>.
\<close>

definition totalOf :: "real option \<Rightarrow> real option \<Rightarrow> real option" where
  "totalOf fromStart fromEnd =
     (if fromStart \<noteq> None \<and> fromEnd \<noteq> None
      then Some (the fromStart + the fromEnd) else None)"

definition differenceOf :: "real option \<Rightarrow> real option \<Rightarrow> real option" where
  "differenceOf fromStart fromEnd =
     (if fromStart \<noteq> None \<and> fromEnd \<noteq> None
      then Some \<bar>the fromEnd - the fromStart\<bar> else None)"

text \<open>The POI as it came from the search, with none of the added fields.\<close>

definition unscored :: "PoiResponse \<Rightarrow> PoiWithTravelTimes" where
  "unscored p =
     \<lparr>osm_id = osm_id p, name = name p, type = type p, poi_lat = poi_lat p, poi_lon = poi_lon p,
      travelTimeFromStart = None, travelTimeFromEnd = None,
      distanceFromStart = None, distanceFromEnd = None,
      totalTravelTime = None, travelTimeDifference = None,
      isFavorite = None\<rparr>"

text \<open>
  The body of the \<open>pois.map\<close> callback of \<open>calculateTravelTimes\<close>, lines 132 to 189.
  The two awaited routing calls are its inputs; a call that throws is \<open>Inl\<close>, and then
  the \<open>catch\<close> returns the POI as it came. \<open>favorites.includes(poi.osm_id || "")\<close>
  reads the list of favourite ids.
\<close>

definition scorePoi ::
  "string list \<Rightarrow> PoiResponse \<Rightarrow> js_error + ActionState \<Rightarrow> js_error + ActionState
     \<Rightarrow> PoiWithTravelTimes" where
  "scorePoi favorites p startRoute endRoute =
     (case startRoute of
        Inl _ \<Rightarrow> unscored p
      | Inr sr \<Rightarrow>
         (case endRoute of
            Inl _ \<Rightarrow> unscored p
          | Inr er \<Rightarrow>
             (let fromStart = durationOf sr;
                  fromEnd = durationOf er
              in (unscored p)
                   \<lparr>travelTimeFromStart := fromStart,
                    travelTimeFromEnd := fromEnd,
                    distanceFromStart := distanceOf sr,
                    distanceFromEnd := distanceOf er,
                    totalTravelTime := totalOf fromStart fromEnd,
                    travelTimeDifference := differenceOf fromStart fromEnd,
                    isFavorite :=
                      Some ((case osm_id p of None \<Rightarrow> [] | Some i \<Rightarrow> i) \<in> set favorites)\<rparr>)))"

subsection \<open>Categories, filter and sort: \<open>getPoiCategory\<close>, \<open>sortedAndFilteredPois\<close>\<close>

text \<open>
  \<open>String.prototype.toLowerCase\<close> on type tags, which are ASCII: the letters \<open>A\<close> to
  \<open>Z\<close> are mapped to \<open>a\<close> to \<open>z\<close>, every other character is kept.
\<close>

definition lowerChar :: "char \<Rightarrow> char" where
  "lowerChar c =
     (case map_of (zip ''ABCDEFGHIJKLMNOPQRSTUVWXYZ'' ''abcdefghijklmnopqrstuvwxyz'') c of
        None \<Rightarrow> c
      | Some l \<Rightarrow> l)"

definition toLowerCase :: "string \<Rightarrow> string" where
  "toLowerCase s = map lowerChar s"

definition getPoiCategory :: "string \<Rightarrow> FilterOption" where
  "getPoiCategory t =
     (let t' = toLowerCase t
      in if t' \<in> set [''restaurant'', ''cafe'', ''bar'', ''pub'', ''fast_food''] then Food
         else if t' \<in> set [''park'', ''cinema'', ''theatre'', ''theater'', ''museum''] then Activities
         else if t' \<in> set [''hotel'', ''hostel'', ''guest_house''] then Lodging
         else Other)"

text \<open>
  The three rules of the \<open>filter\<close> callback, lines 289 to 310, each as the test under
  which the callback returns \<open>false\<close>. A number is truthy when it is present and not
  zero; \<open>!poi.isFavorite\<close> holds for an absent field.
\<close>

definition dropByCategory :: "FilterOption \<Rightarrow> PoiWithTravelTimes \<Rightarrow> bool" where
  "dropByCategory activeTab p = (activeTab \<noteq> All \<and> getPoiCategory (type p) \<noteq> activeTab)"

definition dropByTimeDifference :: "MaxTimeDifference \<Rightarrow> PoiWithTravelTimes \<Rightarrow> bool" where
  "dropByTimeDifference maxTimeDifference p =
     (case travelTimeDifference p of
        None \<Rightarrow> False
      | Some d \<Rightarrow> d \<noteq> 0 \<and> d / 60 > minutes maxTimeDifference)"

definition dropByFavorites :: "bool \<Rightarrow> PoiWithTravelTimes \<Rightarrow> bool" where
  "dropByFavorites showOnlyFavorites p = (showOnlyFavorites \<and> isFavorite p \<noteq> Some True)"

definition keepPoi :: "FilterOption \<Rightarrow> MaxTimeDifference \<Rightarrow> bool \<Rightarrow> PoiWithTravelTimes \<Rightarrow> bool" where
  "keepPoi activeTab maxTimeDifference showOnlyFavorites p =
     (if dropByCategory activeTab p then False
      else if dropByTimeDifference maxTimeDifference p then False
      else if dropByFavorites showOnlyFavorites p then False
      else True)"

text \<open>\<open>x || 0\<close> for an optional number.\<close>

definition orZero :: "real option \<Rightarrow> real" where
  "orZero v = (case v of None \<Rightarrow> 0 | Some x \<Rightarrow> x)"

text \<open>
  The comparator of lines 311 to 326. \<open>localeCompare\<close> depends on the locale of the
  browser and is a parameter. The \<open>default\<close> branch has no sort option left.
\<close>

definition compareFn ::
  "(string \<Rightarrow> string \<Rightarrow> real) \<Rightarrow> SortOption \<Rightarrow> PoiWithTravelTimes \<Rightarrow> PoiWithTravelTimes \<Rightarrow> real" where
  "compareFn localeCompare sortBy a b =
     (case sortBy of
        Name \<Rightarrow> localeCompare (name a) (name b)
      | DistanceFromStart \<Rightarrow> orZero (distanceFromStart a) - orZero (distanceFromStart b)
      | DistanceFromEnd \<Rightarrow> orZero (distanceFromEnd a) - orZero (distanceFromEnd b)
      | TotalTime \<Rightarrow> orZero (totalTravelTime a) - orZero (totalTravelTime b)
      | TimeDifference \<Rightarrow> orZero (travelTimeDifference a) - orZero (travelTimeDifference b))"

text \<open>
  \<open>Array.prototype.sort\<close> with a comparator is a stable sort: \<open>a\<close> stays before \<open>b\<close>
  unless the comparator is positive on them. It is modelled by insertion from the right,
  which places an element before the first later element it does not exceed.
\<close>

fun insertBy :: "('a \<Rightarrow> 'a \<Rightarrow> real) \<Rightarrow> 'a \<Rightarrow> 'a list \<Rightarrow> 'a list" where
  "insertBy cmp x [] = [x]"
| "insertBy cmp x (y # ys) = (if cmp x y \<le> 0 then x # y # ys else y # insertBy cmp x ys)"

definition sortWith :: "('a \<Rightarrow> 'a \<Rightarrow> real) \<Rightarrow> 'a list \<Rightarrow> 'a list" where
  "sortWith cmp xs = foldr (insertBy cmp) xs []"

definition sortedAndFilteredPois ::
  "(string \<Rightarrow> string \<Rightarrow> real) \<Rightarrow> FilterOption \<Rightarrow> MaxTimeDifference \<Rightarrow> bool \<Rightarrow> SortOption
     \<Rightarrow> PoiWithTravelTimes list \<Rightarrow> PoiWithTravelTimes list" where
  "sortedAndFilteredPois localeCompare activeTab maxTimeDifference showOnlyFavorites sortBy
       poisWithTravelTimes =
     sortWith (compareFn localeCompare sortBy)
       (filter (keepPoi activeTab maxTimeDifference showOnlyFavorites) poisWithTravelTimes)"

text \<open>The value a numeric sort option compares by: the field, with an absent one as zero.\<close>

fun sortKey :: "SortOption \<Rightarrow> PoiWithTravelTimes \<Rightarrow> real option" where
  "sortKey Name p = None"
| "sortKey DistanceFromStart p = distanceFromStart p"
| "sortKey DistanceFromEnd p = distanceFromEnd p"
| "sortKey TotalTime p = totalTravelTime p"
| "sortKey TimeDifference p = travelTimeDifference p"

subsection \<open>Sample inputs\<close>

definition cafe :: PoiResponse where
  "cafe = \<lparr>osm_id = Some ''42'', name = ''Corner Cafe'', type = ''cafe'',
           poi_lat = ''40.1'', poi_lon = ''-75.2''\<rparr>"

text \<open>A routing call that succeeded with the given duration and length, and one that did not.\<close>

definition routed :: "real \<Rightarrow> real \<Rightarrow> js_error + ActionState" where
  "routed secs metres =
     Inr \<lparr>isSuccess = True,
          data = Some \<lparr>geometry = \<lparr>coordinates = []\<rparr>, duration = secs, distance = metres\<rparr>\<rparr>"

definition failedLookup :: "js_error + ActionState" where
  "failedLookup = Inr \<lparr>isSuccess = False, data = None\<rparr>"

text \<open>A scored POI with the given name, total time and time difference.\<close>

definition scored :: "string \<Rightarrow> real option \<Rightarrow> real option \<Rightarrow> PoiWithTravelTimes" where
  "scored n tot diff =
     (unscored (cafe\<lparr>name := n\<rparr>))\<lparr>totalTravelTime := tot, travelTimeDifference := diff\<rparr>"

definition noCollation :: "string \<Rightarrow> string \<Rightarrow> real" where
  "noCollation a b = 0"

text \<open>
  Five POIs, for a cutoff of five minutes: \<open>b\<close> and \<open>e\<close> differ by more than 300
  seconds, and the difference of \<open>c\<close> is unknown.
\<close>

definition fivePois :: "PoiWithTravelTimes list" where
  "fivePois =
     [scored ''a'' (Some 1500) (Some 300), scored ''b'' (Some 2000) (Some 400),
      scored ''c'' None None, scored ''d'' (Some 900) (Some 100),
      scored ''e'' (Some 3000) (Some 1200)]"

text \<open>A route with the given polyline and total length.\<close>

definition routeOf :: "(real \<times> real) list \<Rightarrow> real \<Rightarrow> RouteData" where
  "routeOf coords len = \<lparr>geometry = \<lparr>coordinates = coords\<rparr>, duration = 0, distance = len\<rparr>"

text \<open>
  Three points on the equator, one degree of longitude apart (the array is \<open>[lon, lat]\<close>).
\<close>

definition threePoints :: "(real \<times> real) list" where
  "threePoints = [(0, 0), (1, 0), (2, 0)]"

text \<open>Three points on the equator with segments of one and of two degrees.\<close>

definition unevenPoints :: "(real \<times> real) list" where
  "unevenPoints = [(0, 0), (1, 0), (3, 0)]"

section \<open>Properties\<close>

subsection \<open>Scoring\<close>

text \<open>
  Claim C4. For every scored POI: when the travel time from the start or the travel time
  from the end is absent, the total time and the time difference are both absent; when
  both travel times are present, the total time is their sum and the time difference is
  the absolute value of their difference. This holds whatever the two routing calls
  returned, also when one of them threw.
\<close>

theorem scorePoi_derived:
  "(let q = scorePoi favorites p startRoute endRoute
    in (travelTimeFromStart q = None \<or> travelTimeFromEnd q = None
          \<longrightarrow> totalTravelTime q = None \<and> travelTimeDifference q = None)
     \<and> (\<forall>a b. travelTimeFromStart q = Some a \<and> travelTimeFromEnd q = Some b
          \<longrightarrow> totalTravelTime q = Some (a + b) \<and> travelTimeDifference q = Some \<bar>a - b\<bar>))"
  by (auto simp: scorePoi_def unscored_def totalOf_def differenceOf_def Let_def
           split: sum.splits)

text \<open>
  The scenario of the specification: 600 and 900 seconds score 1500 and 300; with the
  second lookup failed, both derived fields are absent.
\<close>

theorem scorePoi_derived_witness:
  "totalTravelTime (scorePoi [] cafe (routed 600 5000) (routed 900 7000)) = Some 1500
   \<and> travelTimeDifference (scorePoi [] cafe (routed 600 5000) (routed 900 7000)) = Some 300
   \<and> totalTravelTime (scorePoi [] cafe (routed 600 5000) failedLookup) = None
   \<and> travelTimeDifference (scorePoi [] cafe (routed 600 5000) failedLookup) = None"
  using scorePoi_derived [of "[]" cafe "routed 600 5000" "routed 900 7000"]
        scorePoi_derived [of "[]" cafe "routed 600 5000" failedLookup]
  by (simp add: scorePoi_def unscored_def durationOf_def routed_def failedLookup_def Let_def)

subsection \<open>Categories\<close>

text \<open>
  Claim C7, as the code has it. The category is read off the lower-cased type tag:
  restaurant, cafe, bar, pub and fast_food are food; park, cinema, theatre, theater and
  museum are activities; hotel, hostel and guest_house are lodging; every other tag is
  other.
\<close>

theorem getPoiCategory_mapping:
  "(getPoiCategory t = Food
      \<longleftrightarrow> toLowerCase t \<in> {''restaurant'', ''cafe'', ''bar'', ''pub'', ''fast_food''})
   \<and> (getPoiCategory t = Activities
      \<longleftrightarrow> toLowerCase t \<in> {''park'', ''cinema'', ''theatre'', ''theater'', ''museum''})
   \<and> (getPoiCategory t = Lodging
      \<longleftrightarrow> toLowerCase t \<in> {''hotel'', ''hostel'', ''guest_house''})
   \<and> (getPoiCategory t = Other
      \<longleftrightarrow> toLowerCase t \<notin> {''restaurant'', ''cafe'', ''bar'', ''pub'', ''fast_food'',
                             ''park'', ''cinema'', ''theatre'', ''theater'', ''museum'',
                             ''hotel'', ''hostel'', ''guest_house''})"
  unfolding getPoiCategory_def Let_def by (simp; blast?)

text \<open>
  The tag \<open>theater\<close> is none of the twelve tags the claim lists, and its category is
  activities, not other.
\<close>

theorem getPoiCategory_theater:
  "getPoiCategory ''theater'' = Activities \<and> getPoiCategory ''theater'' \<noteq> Other"
  by (simp add: getPoiCategory_def toLowerCase_def lowerChar_def)

subsection \<open>The sort is an insertion sort by the key\<close>

lemma set_insertBy: "set (insertBy cmp x ys) = insert x (set ys)"
  by (induction ys) auto

lemma set_sortWith: "set (sortWith cmp xs) = set xs"
  by (induction xs) (simp_all add: sortWith_def set_insertBy)

lemma minutes_pos: "0 < minutes m"
  by (cases m) simp_all

lemma insertBy_insort_key:
  assumes "\<And>a b. cmp a b = f a - f b"
  shows "insertBy cmp x ys = insort_key f x ys"
  by (induction ys) (simp_all add: assms)

lemma sortWith_sort_key:
  assumes "\<And>a b. cmp a b = f a - f b"
  shows "sortWith cmp xs = sort_key f xs"
  by (induction xs) (simp_all add: sortWith_def insertBy_insort_key [OF assms])

lemma compareFn_numeric:
  "sortBy \<noteq> Name \<Longrightarrow>
     compareFn localeCompare sortBy a b = orZero (sortKey sortBy a) - orZero (sortKey sortBy b)"
  by (cases sortBy) (simp_all add: compareFn_def)

lemma sortWith_numeric_sorted:
  assumes "sortBy \<noteq> Name"
  shows "sorted (map (\<lambda>p. orZero (sortKey sortBy p)) (sortWith (compareFn localeCompare sortBy) xs))"
proof -
  have "sortWith (compareFn localeCompare sortBy) xs = sort_key (\<lambda>p. orZero (sortKey sortBy p)) xs"
    by (rule sortWith_sort_key) (simp add: compareFn_numeric [OF assms])
  then show ?thesis by simp
qed

lemma fivePois_out:
  "sortedAndFilteredPois noCollation All Max5 False TotalTime fivePois =
     [scored ''c'' None None, scored ''d'' (Some 900) (Some 100), scored ''a'' (Some 1500) (Some 300)]"
  by (simp add: sortedAndFilteredPois_def fivePois_def scored_def unscored_def cafe_def
        keepPoi_def dropByCategory_def dropByTimeDifference_def dropByFavorites_def
        sortWith_def compareFn_def orZero_def)

subsection \<open>The filter\<close>

text \<open>
  Claim C5. In the filter step, a POI whose time difference is present and exceeds the
  maximum allowed (the difference in seconds, divided by 60, against the cutoff in
  minutes) is dropped: the callback returns false for it and it is not in the output. A
  POI whose time difference is absent is never dropped by this rule: the rule does not
  fire, the callback keeps the POI exactly when the category rule and the favourites rule
  keep it, and then a POI of the input is in the output.
\<close>

theorem filter_time_difference:
  "(travelTimeDifference p = Some d \<and> d / 60 > minutes maxTimeDifference
      \<longrightarrow> \<not> keepPoi activeTab maxTimeDifference showOnlyFavorites p
          \<and> p \<notin> set (sortedAndFilteredPois localeCompare activeTab maxTimeDifference
                         showOnlyFavorites sortBy pois))
   \<and> (travelTimeDifference p = None
      \<longrightarrow> \<not> dropByTimeDifference maxTimeDifference p
          \<and> (keepPoi activeTab maxTimeDifference showOnlyFavorites p
                \<longleftrightarrow> \<not> dropByCategory activeTab p \<and> \<not> dropByFavorites showOnlyFavorites p)
          \<and> (p \<in> set pois \<and> \<not> dropByCategory activeTab p \<and> \<not> dropByFavorites showOnlyFavorites p
                \<longrightarrow> p \<in> set (sortedAndFilteredPois localeCompare activeTab maxTimeDifference
                                 showOnlyFavorites sortBy pois)))"
proof (intro conjI impI)
  assume a: "travelTimeDifference p = Some d \<and> d / 60 > minutes maxTimeDifference"
  have "0 < minutes maxTimeDifference" by (rule minutes_pos)
  with a have "d \<noteq> 0" by auto
  with a have drop: "dropByTimeDifference maxTimeDifference p"
    by (simp add: dropByTimeDifference_def)
  then show k: "\<not> keepPoi activeTab maxTimeDifference showOnlyFavorites p"
    by (simp add: keepPoi_def)
  then show "p \<notin> set (sortedAndFilteredPois localeCompare activeTab maxTimeDifference
                         showOnlyFavorites sortBy pois)"
    by (simp add: sortedAndFilteredPois_def set_sortWith)
next
  assume n: "travelTimeDifference p = None"
  then show nd: "\<not> dropByTimeDifference maxTimeDifference p"
    by (simp add: dropByTimeDifference_def)
  then show "keepPoi activeTab maxTimeDifference showOnlyFavorites p
                \<longleftrightarrow> \<not> dropByCategory activeTab p \<and> \<not> dropByFavorites showOnlyFavorites p"
    by (simp add: keepPoi_def)
next
  assume n: "travelTimeDifference p = None"
    and "p \<in> set pois \<and> \<not> dropByCategory activeTab p \<and> \<not> dropByFavorites showOnlyFavorites p"
  then show "p \<in> set (sortedAndFilteredPois localeCompare activeTab maxTimeDifference
                                 showOnlyFavorites sortBy pois)"
    by (simp add: sortedAndFilteredPois_def set_sortWith keepPoi_def dropByTimeDifference_def)
qed

text \<open>
  The scenario of the specification: of the five POIs, the two that exceed the cutoff are
  dropped and the one with the unknown difference is kept.
\<close>

theorem filter_time_difference_witness:
  "scored ''b'' (Some 2000) (Some 400)
     \<notin> set (sortedAndFilteredPois noCollation All Max5 False TotalTime fivePois)
   \<and> scored ''e'' (Some 3000) (Some 1200)
     \<notin> set (sortedAndFilteredPois noCollation All Max5 False TotalTime fivePois)
   \<and> scored ''c'' None None
     \<in> set (sortedAndFilteredPois noCollation All Max5 False TotalTime fivePois)"
  using filter_time_difference [of "scored ''b'' (Some 2000) (Some 400)" 400 Max5 All False
          noCollation TotalTime fivePois]
        filter_time_difference [of "scored ''e'' (Some 3000) (Some 1200)" 1200 Max5 All False
          noCollation TotalTime fivePois]
        filter_time_difference [of "scored ''c'' None None" 0 Max5 All False
          noCollation TotalTime fivePois]
  by (simp add: scored_def unscored_def cafe_def fivePois_def dropByCategory_def
        dropByFavorites_def)

subsection \<open>The sort\<close>

text \<open>
  Claim C6, as the code has it. For every numeric sort option (distance from the start,
  distance from the end, total time, time difference) the comparator reads an absent
  value as zero: the output is in nondecreasing order of the value with absent counted
  as zero, so a POI with an absent value stands before every POI whose value is present
  and positive.
\<close>

theorem numeric_sort_absent_as_zero:
  assumes "sortBy \<noteq> Name"
  shows "(let out = sortedAndFilteredPois localeCompare activeTab maxTimeDifference
                      showOnlyFavorites sortBy pois
          in sorted (map (\<lambda>p. orZero (sortKey sortBy p)) out)
           \<and> (\<forall>i j v. i < length out \<and> j < length out
                 \<and> sortKey sortBy (out ! i) = None
                 \<and> sortKey sortBy (out ! j) = Some v \<and> 0 < v \<longrightarrow> i < j))"
proof -
  define out where "out = sortedAndFilteredPois localeCompare activeTab maxTimeDifference
                      showOnlyFavorites sortBy pois"
  have s: "sorted (map (\<lambda>p. orZero (sortKey sortBy p)) out)"
    unfolding out_def sortedAndFilteredPois_def by (rule sortWith_numeric_sorted [OF assms])
  have "i < j" if h: "i < length out" "j < length out" "sortKey sortBy (out ! i) = None"
      "sortKey sortBy (out ! j) = Some v" "0 < v" for i j v
  proof (rule ccontr)
    assume "\<not> i < j"
    then have "j \<le> i" by simp
    with s h(1) have "map (\<lambda>p. orZero (sortKey sortBy p)) out ! j
                      \<le> map (\<lambda>p. orZero (sortKey sortBy p)) out ! i"
      by (simp add: sorted_iff_nth_mono)
    with h show False by (simp add: orZero_def)
  qed
  with s show ?thesis unfolding out_def [symmetric] Let_def by blast
qed

theorem numeric_sort_absent_as_zero_witness:
  "sorted (map (\<lambda>p. orZero (sortKey TotalTime p))
      (sortedAndFilteredPois noCollation All Max5 False TotalTime fivePois))
   \<and> sortedAndFilteredPois noCollation All Max5 False TotalTime fivePois ! 0 = scored ''c'' None None"
  using numeric_sort_absent_as_zero [of TotalTime noCollation All Max5 False fivePois]
  by (simp add: fivePois_out Let_def)

text \<open>
  Sorting by total time, the POI with no total time comes out first, before the POI with
  a total time of 1500 seconds: absent does not sort last.
\<close>

theorem numeric_sort_absent_first:
  "sortedAndFilteredPois noCollation All Max999 False TotalTime
     [scored ''a'' (Some 1500) (Some 300), scored ''c'' None None]
   = [scored ''c'' None None, scored ''a'' (Some 1500) (Some 300)]"
  by (simp add: sortedAndFilteredPois_def scored_def unscored_def cafe_def
        keepPoi_def dropByCategory_def dropByTimeDifference_def dropByFavorites_def
        sortWith_def compareFn_def orZero_def)

subsection \<open>\<open>atan2\<close> and the haversine distance\<close>

lemma sin_neg_open:
  fixes t :: real
  assumes "- pi < t" "t < 0"
  shows "sin t < 0"
proof -
  have "0 < sin (- t)" using assms by (intro sin_gt_zero) simp_all
  then show ?thesis by simp
qed

lemma cos_neg_upper:
  fixes t :: real
  assumes "pi / 2 < t" "t \<le> pi"
  shows "cos t < 0"
proof -
  have "0 < cos (t - pi)" using assms by (intro cos_gt_zero_pi) simp_all
  then show ?thesis by simp
qed

lemma cos_neg_lower:
  fixes t :: real
  assumes "- pi < t" "t < - (pi / 2)"
  shows "cos t < 0"
proof -
  have "0 < cos (t + pi)" using assms by (intro cos_gt_zero_pi) simp_all
  then show ?thesis by simp
qed

lemma atan2_polar:
  assumes "- pi < t" "t \<le> pi" "0 < r"
  shows "atan2 (r * sin t) (r * cos t) = t"
proof -
  have q: "(r * sin t) / (r * cos t) = tan t"
    using assms(3) by (simp add: tan_def)
  consider (mid) "- (pi / 2) < t" "t < pi / 2"
    | (up) "pi / 2 < t"
    | (down) "t < - (pi / 2)"
    | (top) "t = pi / 2"
    | (bot) "t = - (pi / 2)"
    by linarith
  then show ?thesis
  proof cases
    case mid
    then have "0 < cos t" by (rule cos_gt_zero_pi)
    with assms(3) have "0 < r * cos t" by simp
    then show ?thesis
      unfolding atan2_def q using mid by (simp add: arctan_tan)
  next
    case up
    with assms have c: "cos t < 0" by (intro cos_neg_upper) simp_all
    from up assms have s: "0 \<le> sin t" by (intro sin_ge_zero) simp_all
    from c assms(3) have x: "r * cos t < 0" by (simp add: mult_pos_neg)
    from s assms(3) have y: "0 \<le> r * sin t" by simp
    have "arctan (tan t) = arctan (tan (t - pi))"
      using tan_periodic_pi [of "t - pi"] by simp
    also have "\<dots> = t - pi"
      using up assms by (intro arctan_tan) simp_all
    finally show ?thesis
      unfolding atan2_def q using x y by simp
  next
    case down
    with assms have c: "cos t < 0" by (intro cos_neg_lower) simp_all
    from down assms have s: "sin t < 0"
      using pi_gt_zero by (intro sin_neg_open) simp_all
    from c assms(3) have x: "r * cos t < 0" by (simp add: mult_pos_neg)
    from s assms(3) have y: "r * sin t < 0" by (simp add: mult_pos_neg)
    have "arctan (tan t) = arctan (tan (t + pi))"
      by simp
    also have "\<dots> = t + pi"
      using down assms by (intro arctan_tan) simp_all
    finally show ?thesis
      unfolding atan2_def q using x y by simp
  next
    case top
    show ?thesis unfolding top atan2_def using assms(3) by simp
  next
    case bot
    show ?thesis unfolding bot atan2_def using assms(3) by simp
  qed
qed

lemma atan2_sin_cos: "- pi < t \<Longrightarrow> t \<le> pi \<Longrightarrow> atan2 (sin t) (cos t) = t"
  using atan2_polar [of t 1] by simp

lemma haversine_angle:
  fixes x :: real
  assumes "\<bar>x\<bar> \<le> pi / 2"
  shows "atan2 (sqrt (sin x * sin x)) (sqrt (1 - sin x * sin x)) = \<bar>x\<bar>"
proof -
  have c: "0 \<le> cos x" using assms by (intro cos_ge_zero) simp_all
  have s: "0 \<le> sin \<bar>x\<bar>" using assms pi_gt_zero by (intro sin_ge_zero) simp_all
  have "sqrt (sin x * sin x) = \<bar>sin x\<bar>" by simp
  also have "\<dots> = sin \<bar>x\<bar>"
  proof (cases "0 \<le> x")
    case True
    with s show ?thesis by simp
  next
    case False
    with s have "0 \<le> sin (- x)" by simp
    with False show ?thesis by simp
  qed
  finally have 1: "sqrt (sin x * sin x) = sin \<bar>x\<bar>" .
  have "1 - sin x * sin x = cos x * cos x"
    using sin_cos_squared_add [of x] by (simp add: power2_eq_square)
  then have "sqrt (1 - sin x * sin x) = \<bar>cos x\<bar>" by simp
  also have "\<dots> = cos \<bar>x\<bar>" using c by (simp add: abs_if)
  finally have 2: "sqrt (1 - sin x * sin x) = cos \<bar>x\<bar>" .
  have lo: "- pi < \<bar>x\<bar>" using pi_gt_zero abs_ge_zero [of x] by linarith
  have hi: "\<bar>x\<bar> \<le> pi" using assms pi_gt_zero by linarith
  show ?thesis
    unfolding 1 2 by (rule atan2_sin_cos [OF lo hi])
qed

text \<open>
  The number \<open>a\<close> of the haversine formula is between 0 and 1 for all coordinates:
  \<open>1 - 2 * a\<close> is the inner product of two unit vectors. Both square roots are
  therefore taken of numbers that are not negative, and a segment distance is between 0
  and half of the circumference.
\<close>

lemma unit_dot_range:
  fixes s1 c1 s2 c2 sd cd :: real
  assumes u1: "s1 * s1 + c1 * c1 = 1" and u2: "s2 * s2 + c2 * c2 = 1" and ud: "sd * sd + cd * cd = 1"
  shows "\<bar>s1 * s2 + c1 * c2 * cd\<bar> \<le> 1"
proof -
  have k: "c2 * cd * (c2 * cd) + c2 * sd * (c2 * sd) = c2 * c2"
  proof -
    have "c2 * cd * (c2 * cd) + c2 * sd * (c2 * sd) = c2 * c2 * (sd * sd + cd * cd)"
      by (simp add: algebra_simps)
    then show ?thesis by (simp only: ud)
  qed
  have m: "(c1 - c2 * cd) * (c1 - c2 * cd) + c2 * sd * (c2 * sd) + (s1 - s2) * (s1 - s2)
        = (s1 * s1 + c1 * c1) + (s2 * s2 + (c2 * cd * (c2 * cd) + c2 * sd * (c2 * sd)))
          - 2 * (s1 * s2 + c1 * c2 * cd)"
    by (simp add: algebra_simps)
  have p: "(c1 + c2 * cd) * (c1 + c2 * cd) + c2 * sd * (c2 * sd) + (s1 + s2) * (s1 + s2)
        = (s1 * s1 + c1 * c1) + (s2 * s2 + (c2 * cd * (c2 * cd) + c2 * sd * (c2 * sd)))
          + 2 * (s1 * s2 + c1 * c2 * cd)"
    by (simp add: algebra_simps)
  have "0 \<le> (c1 - c2 * cd) * (c1 - c2 * cd) + c2 * sd * (c2 * sd) + (s1 - s2) * (s1 - s2)"
    by (intro add_nonneg_nonneg) simp_all
  then have 1: "s1 * s2 + c1 * c2 * cd \<le> 1"
    unfolding m k u1 u2 by simp
  have "0 \<le> (c1 + c2 * cd) * (c1 + c2 * cd) + c2 * sd * (c2 * sd) + (s1 + s2) * (s1 + s2)"
    by (intro add_nonneg_nonneg) simp_all
  then have 2: "- 1 \<le> s1 * s2 + c1 * c2 * cd"
    unfolding p k u1 u2 by simp
  from 1 2 show ?thesis by (simp add: abs_le_iff)
qed

lemma half_angle_sin: "sin (x / 2) * sin (x / 2) = (1 - cos x) / 2" for x :: real
  using cos_double_sin [of "x / 2"] by (simp add: power2_eq_square)

lemma haversine_radicand_range:
  fixes p1 p2 dl :: real
  shows "0 \<le> sin ((p2 - p1) / 2) * sin ((p2 - p1) / 2) + cos p1 * cos p2 * sin (dl / 2) * sin (dl / 2)"
    and "sin ((p2 - p1) / 2) * sin ((p2 - p1) / 2) + cos p1 * cos p2 * sin (dl / 2) * sin (dl / 2) \<le> 1"
proof -
  define D where "D = sin p1 * sin p2 + cos p1 * cos p2 * cos dl"
  have u: "sin x * sin x + cos x * cos x = 1" for x :: real
    using sin_cos_squared_add [of x] by (simp add: power2_eq_square)
  have "\<bar>D\<bar> \<le> 1" unfolding D_def by (rule unit_dot_range [OF u u u])
  then have D: "- 1 \<le> D" "D \<le> 1" by (simp_all add: abs_le_iff)
  have "sin ((p2 - p1) / 2) * sin ((p2 - p1) / 2) + cos p1 * cos p2 * sin (dl / 2) * sin (dl / 2)
        = (1 - cos (p2 - p1)) / 2 + cos p1 * cos p2 * ((1 - cos dl) / 2)"
    by (simp only: mult.assoc half_angle_sin)
  also have "\<dots> = (1 - D) / 2"
    by (simp add: D_def cos_diff algebra_simps add_divide_distrib diff_divide_distrib)
  finally have e: "sin ((p2 - p1) / 2) * sin ((p2 - p1) / 2)
      + cos p1 * cos p2 * sin (dl / 2) * sin (dl / 2) = (1 - D) / 2" .
  show "0 \<le> sin ((p2 - p1) / 2) * sin ((p2 - p1) / 2) + cos p1 * cos p2 * sin (dl / 2) * sin (dl / 2)"
    unfolding e using D by simp
  show "sin ((p2 - p1) / 2) * sin ((p2 - p1) / 2) + cos p1 * cos p2 * sin (dl / 2) * sin (dl / 2) \<le> 1"
    unfolding e using D by simp
qed

lemma segmentDistance_range:
  "0 \<le> segmentDistance p q \<and> segmentDistance p q \<le> 6371000 * pi"
proof -
  define a where "a = sin (((snd q - snd p) * pi / 180) / 2) * sin (((snd q - snd p) * pi / 180) / 2)
     + cos (snd p * pi / 180) * cos (snd q * pi / 180)
       * sin (((fst q - fst p) * pi / 180) / 2) * sin (((fst q - fst p) * pi / 180) / 2)"
  have d: "(snd q - snd p) * pi / 180 = snd q * pi / 180 - snd p * pi / 180"
    by (simp add: algebra_simps diff_divide_distrib)
  have a: "0 \<le> a" "a \<le> 1"
    unfolding a_def d by (rule haversine_radicand_range)+
  have sd: "segmentDistance p q = 6371000 * (2 * atan2 (sqrt a) (sqrt (1 - a)))"
    by (simp add: segmentDistance_def a_def Let_def)
  have x: "0 \<le> sqrt (1 - a)" and y: "0 \<le> sqrt a" using a by simp_all
  have "0 \<le> atan2 (sqrt a) (sqrt (1 - a)) \<and> atan2 (sqrt a) (sqrt (1 - a)) \<le> pi / 2"
  proof (cases "0 < sqrt (1 - a)")
    case True
    then have "atan2 (sqrt a) (sqrt (1 - a)) = arctan (sqrt a / sqrt (1 - a))"
      by (simp add: atan2_def)
    moreover have "0 \<le> arctan (sqrt a / sqrt (1 - a))"
      using x y by (simp add: zero_le_arctan_iff)
    moreover have "arctan (sqrt a / sqrt (1 - a)) < pi / 2" by (rule arctan_ubound)
    ultimately show ?thesis by simp
  next
    case False
    with x have "sqrt (1 - a) = 0" by simp
    then show ?thesis using y by (simp add: atan2_def)
  qed
  then show ?thesis unfolding sd by simp
qed

text \<open>Along the equator the haversine distance is the arc length.\<close>

lemma segmentDistance_equator:
  assumes "\<bar>lon2 - lon1\<bar> \<le> 180"
  shows "segmentDistance (lon1, 0) (lon2, 0) = 6371000 * (\<bar>lon2 - lon1\<bar> * pi / 180)"
proof -
  define x where "x = (lon2 - lon1) * pi / 180 / 2"
  have ax: "\<bar>x\<bar> = \<bar>lon2 - lon1\<bar> * pi / 360"
    by (simp add: x_def abs_mult)
  have "\<bar>lon2 - lon1\<bar> * pi \<le> 180 * pi"
    using assms by (intro mult_right_mono) simp_all
  then have b: "\<bar>x\<bar> \<le> pi / 2" by (simp add: ax)
  have "segmentDistance (lon1, 0) (lon2, 0) =
          6371000 * (2 * atan2 (sqrt (sin x * sin x)) (sqrt (1 - sin x * sin x)))"
    by (simp add: segmentDistance_def x_def)
  also have "\<dots> = 6371000 * (2 * \<bar>x\<bar>)" by (simp only: haversine_angle [OF b])
  finally show ?thesis by (simp add: ax)
qed

text \<open>
  Claim C9. The great-circle distance is symmetric: the distance from \<open>a\<close> to \<open>b\<close>
  equals the distance from \<open>b\<close> to \<open>a\<close>, for every two coordinates.
\<close>

theorem segmentDistance_symmetric: "segmentDistance a b = segmentDistance b a"
proof -
  have s: "sin (x * pi / 360) * sin (x * pi / 360) = sin (- x * pi / 360) * sin (- x * pi / 360)"
    for x :: real
    by simp
  show ?thesis
    using s [of "snd b - snd a"] s [of "fst b - fst a"]
    by (simp add: segmentDistance_def Let_def algebra_simps)
qed

subsection \<open>The loop of \<open>getMidpoint\<close>\<close>

declare midpointLoop.simps [simp del]

lemma distanceBefore_0: "distanceBefore coords 0 = 0"
  by (simp add: distanceBefore_def)

lemma distanceBefore_Suc:
  "distanceBefore coords (Suc i) =
     distanceBefore coords i + segmentDistance (coords ! i) (coords ! Suc i)"
  by (simp add: distanceBefore_def)

lemma midpointLoop_end: "length coords \<le> Suc i \<Longrightarrow> midpointLoop coords totalDistance i cur = None"
  by (subst midpointLoop.simps) auto

lemma midpointLoop_cross:
  assumes "Suc i < length coords"
    and "cur + segmentDistance (coords ! i) (coords ! Suc i) > totalDistance / 2"
  shows "midpointLoop coords totalDistance i cur =
     Some (interpolate (coords ! i) (coords ! Suc i)
       ((totalDistance / 2 - cur) / segmentDistance (coords ! i) (coords ! Suc i)))"
  using assms by (subst midpointLoop.simps) (simp add: Let_def interpolate_def)

lemma midpointLoop_step:
  assumes "Suc i < length coords"
    and "\<not> cur + segmentDistance (coords ! i) (coords ! Suc i) > totalDistance / 2"
  shows "midpointLoop coords totalDistance i cur =
     midpointLoop coords totalDistance (Suc i) (cur + segmentDistance (coords ! i) (coords ! Suc i))"
  using assms by (subst midpointLoop.simps) (simp add: Let_def)

lemma midpointLoop_none:
  assumes "\<And>j. i \<le> j \<Longrightarrow> Suc j < length coords \<Longrightarrow> distanceBefore coords (Suc j) \<le> totalDistance / 2"
  shows "midpointLoop coords totalDistance i (distanceBefore coords i) = None"
  using assms
proof (induction "length coords - i" arbitrary: i)
  case 0
  then show ?case by (simp add: midpointLoop_end)
next
  case (Suc n)
  show ?case
  proof (cases "Suc i < length coords")
    case False
    then show ?thesis by (simp add: midpointLoop_end)
  next
    case True
    have le: "distanceBefore coords (Suc i) \<le> totalDistance / 2"
      using Suc.prems [of i] True by simp
    have "midpointLoop coords totalDistance i (distanceBefore coords i) =
          midpointLoop coords totalDistance (Suc i) (distanceBefore coords (Suc i))"
      using midpointLoop_step [OF True, where cur = "distanceBefore coords i" and totalDistance = totalDistance] le
      by (simp add: distanceBefore_Suc)
    also have "\<dots> = None"
    proof (rule Suc.hyps(1))
      show "n = length coords - Suc i" using Suc.hyps(2) by simp
    next
      fix j assume "Suc i \<le> j" "Suc j < length coords"
      then show "distanceBefore coords (Suc j) \<le> totalDistance / 2"
        using Suc.prems [of j] by simp
    qed
    finally show ?thesis .
  qed
qed

lemma midpointLoop_first_crossing:
  assumes "i \<le> k" and "Suc k < length coords"
    and "\<And>j. i \<le> j \<Longrightarrow> j < k \<Longrightarrow> distanceBefore coords (Suc j) \<le> totalDistance / 2"
    and "distanceBefore coords (Suc k) > totalDistance / 2"
  shows "midpointLoop coords totalDistance i (distanceBefore coords i) =
     Some (interpolate (coords ! k) (coords ! Suc k)
       ((totalDistance / 2 - distanceBefore coords k) / segmentDistance (coords ! k) (coords ! Suc k)))"
  using assms
proof (induction "k - i" arbitrary: i)
  case 0
  then have "i = k" by simp
  with "0.prems" show ?case
    by (simp add: midpointLoop_cross distanceBefore_Suc)
next
  case (Suc n)
  then have lt: "i < k" by simp
  with Suc.prems have si: "Suc i < length coords" by simp
  have le: "distanceBefore coords (Suc i) \<le> totalDistance / 2"
    using Suc.prems(3) [of i] lt by simp
  have "midpointLoop coords totalDistance i (distanceBefore coords i) =
        midpointLoop coords totalDistance (Suc i) (distanceBefore coords (Suc i))"
    using midpointLoop_step [OF si, where cur = "distanceBefore coords i" and totalDistance = totalDistance] le
    by (simp add: distanceBefore_Suc)
  also have "\<dots> = Some (interpolate (coords ! k) (coords ! Suc k)
       ((totalDistance / 2 - distanceBefore coords k) / segmentDistance (coords ! k) (coords ! Suc k)))"
  proof (rule Suc.hyps(1))
    show "n = k - Suc i" using Suc.hyps(2) by simp
    show "Suc i \<le> k" using lt by simp
    show "Suc k < length coords" by (rule Suc.prems(2))
    show "distanceBefore coords (Suc k) > totalDistance / 2" by (rule Suc.prems(4))
  next
    fix j assume "Suc i \<le> j" "j < k"
    then show "distanceBefore coords (Suc j) \<le> totalDistance / 2"
      using Suc.prems(3) [of j] by simp
  qed
  finally show ?case .
qed

lemma middle_in_range: "length xs div 2 < length xs \<longleftrightarrow> xs \<noteq> []"
proof -
  have "n div 2 < n \<longleftrightarrow> n \<noteq> 0" for n :: nat by arith
  then show ?thesis by simp
qed

lemma getMidpoint_fallback:
  assumes "midpointLoop (coordinates (geometry r)) (distance r) 0 0 = None"
  shows "getMidpoint (Some r) =
     (if coordinates (geometry r) = [] then Inl TypeError
      else Inr (Some \<lparr>lat = snd (coordinates (geometry r) ! (length (coordinates (geometry r)) div 2)),
                      lng = fst (coordinates (geometry r) ! (length (coordinates (geometry r)) div 2))\<rparr>))"
  using assms by (auto simp: getMidpoint_def Let_def middle_in_range)

lemma midpointLoop_short: "length coords < 2 \<Longrightarrow> midpointLoop coords totalDistance 0 0 = None"
  by (simp add: midpointLoop_end)

text \<open>The sample polyline: its segments are 6371000 * pi / 180 metres long.\<close>

lemma threePoints_segments:
  "segmentDistance (0, 0) (1, 0) = 6371000 * (pi / 180)"
  "segmentDistance (1, 0) (2, 0) = 6371000 * (pi / 180)"
  "segmentDistance (0, 0) (2, 0) = 6371000 * (2 * pi / 180)"
  using segmentDistance_equator [of 1 0] segmentDistance_equator [of 2 1]
        segmentDistance_equator [of 2 0]
  by simp_all

lemma threePoints_nth:
  "length threePoints = 3"
  "threePoints ! 0 = (0, 0)"
  "threePoints ! Suc 0 = (1, 0)"
  "threePoints ! Suc (Suc 0) = (2, 0)"
  by (simp_all add: threePoints_def)

lemma threePoints_before:
  "distanceBefore threePoints 0 = 0"
  "distanceBefore threePoints (Suc 0) = 6371000 * (pi / 180)"
  "distanceBefore threePoints (Suc (Suc 0)) = 6371000 * (2 * pi / 180)"
  by (simp_all add: distanceBefore_Suc distanceBefore_0 threePoints_nth threePoints_segments)

lemma routeOf_sel:
  "coordinates (geometry (routeOf coords len)) = coords"
  "distance (routeOf coords len) = len"
  by (simp_all add: routeOf_def)

text \<open>The second sample polyline, with segments of one and of two degrees.\<close>

lemma unevenPoints_segments:
  "segmentDistance (0, 0) (1, 0) = 6371000 * (pi / 180)"
  "segmentDistance (1, 0) (3, 0) = 6371000 * (2 * pi / 180)"
  "segmentDistance (0, 0) (3, 0) = 6371000 * (3 * pi / 180)"
  using segmentDistance_equator [of 1 0] segmentDistance_equator [of 3 1]
        segmentDistance_equator [of 3 0]
  by simp_all

lemma unevenPoints_nth:
  "length unevenPoints = 3"
  "unevenPoints ! 0 = (0, 0)"
  "unevenPoints ! Suc 0 = (1, 0)"
  "unevenPoints ! Suc (Suc 0) = (3, 0)"
  by (simp_all add: unevenPoints_def)

lemma unevenPoints_before:
  "distanceBefore unevenPoints 0 = 0"
  "distanceBefore unevenPoints (Suc 0) = 6371000 * (pi / 180)"
  "distanceBefore unevenPoints (Suc (Suc 0)) = 6371000 * (3 * pi / 180)"
  by (simp_all add: distanceBefore_Suc distanceBefore_0 unevenPoints_nth unevenPoints_segments)

text \<open>
  On the segment that crosses the threshold of a total length that is not negative, the
  numerator of the ratio is at least 0 and below the length of the segment.
\<close>

lemma crossing_ratio_range:
  assumes "0 \<le> totalDistance"
    and "\<forall>j<k. distanceBefore coords (Suc j) \<le> totalDistance / 2"
    and "distanceBefore coords k + seg > totalDistance / 2"
  shows "0 < seg \<and> 0 \<le> (totalDistance / 2 - distanceBefore coords k) / seg
         \<and> (totalDistance / 2 - distanceBefore coords k) / seg < 1"
proof -
  have b: "distanceBefore coords k \<le> totalDistance / 2"
  proof (cases k)
    case 0
    with assms(1) show ?thesis by (simp add: distanceBefore_0)
  next
    case (Suc j)
    with assms(2) show ?thesis by simp
  qed
  with assms(3) have s: "0 < seg" by linarith
  from b have n: "0 \<le> totalDistance / 2 - distanceBefore coords k" by simp
  from assms(3) have l: "totalDistance / 2 - distanceBefore coords k < seg" by linarith
  from s n l show ?thesis by simp
qed

subsection \<open>The route midpoint\<close>

text \<open>
  Claim C1. When the polyline crosses the half-distance threshold, \<open>getMidpoint\<close>
  returns the interpolation on the first segment whose end brings the running total of
  the segment distances above half of the total length: for the first segment \<open>k\<close>
  with \<open>distanceBefore k + segmentDistance k > distance / 2\<close> the result is the linear
  interpolation between the two ends of the segment with the ratio
  \<open>(distance / 2 - distanceBefore k) / segmentDistance k\<close>. The total length of a
  route is not negative; the segment crossed then has a positive length, so the
  division is one by a positive number, and the ratio is at least 0 and below 1.
\<close>

theorem getMidpoint_first_crossing:
  assumes "0 \<le> distance r"
    and "Suc k < length (coordinates (geometry r))"
    and "\<forall>j<k. distanceBefore (coordinates (geometry r)) (Suc j) \<le> distance r / 2"
    and "distanceBefore (coordinates (geometry r)) k
           + segmentDistance (coordinates (geometry r) ! k) (coordinates (geometry r) ! Suc k)
         > distance r / 2"
  shows "(let coords = coordinates (geometry r);
              segDistance = segmentDistance (coords ! k) (coords ! Suc k);
              ratio = (distance r / 2 - distanceBefore coords k) / segDistance
          in getMidpoint (Some r) = Inr (Some (interpolate (coords ! k) (coords ! Suc k) ratio))
             \<and> 0 < segDistance \<and> 0 \<le> ratio \<and> ratio < 1)"
proof -
  have "midpointLoop (coordinates (geometry r)) (distance r) 0
          (distanceBefore (coordinates (geometry r)) 0) =
     Some (interpolate (coordinates (geometry r) ! k) (coordinates (geometry r) ! Suc k)
       ((distance r / 2 - distanceBefore (coordinates (geometry r)) k)
          / segmentDistance (coordinates (geometry r) ! k) (coordinates (geometry r) ! Suc k)))"
    using assms(2-4) by (intro midpointLoop_first_crossing) (simp_all add: distanceBefore_Suc)
  then have "getMidpoint (Some r) =
     Inr (Some (interpolate (coordinates (geometry r) ! k) (coordinates (geometry r) ! Suc k)
       ((distance r / 2 - distanceBefore (coordinates (geometry r)) k)
          / segmentDistance (coordinates (geometry r) ! k) (coordinates (geometry r) ! Suc k))))"
    by (simp add: getMidpoint_def distanceBefore_0 Let_def)
  with crossing_ratio_range [OF assms(1,3,4)] show ?thesis
    by (simp add: Let_def)
qed

text \<open>
  A route of three points with segments of one and of two degrees, and a total length
  equal to the distance between the first and the last. The first segment ends below
  half of the total, the second crosses it: a quarter of the way along the second
  segment, at the longitude 3/2. The middle coordinate of the polyline is another
  point, at the longitude 1.
\<close>

theorem getMidpoint_first_crossing_witness:
  "getMidpoint (Some (routeOf unevenPoints (segmentDistance (0, 0) (3, 0))))
     = Inr (Some \<lparr>lat = 0, lng = 3 / 2\<rparr>)
   \<and> (distance (routeOf unevenPoints (segmentDistance (0, 0) (3, 0))) / 2
        - distanceBefore unevenPoints (Suc 0))
       / segmentDistance (unevenPoints ! Suc 0) (unevenPoints ! Suc (Suc 0)) = 1 / 4
   \<and> unevenPoints ! (length unevenPoints div 2) = (1, 0)"
proof -
  let ?r = "routeOf unevenPoints (segmentDistance (0, 0) (3, 0))"
  have 0: "0 \<le> distance ?r"
    unfolding routeOf_sel by (simp add: unevenPoints_segments)
  have 1: "Suc (Suc 0) < length (coordinates (geometry ?r))"
    unfolding routeOf_sel by (simp add: unevenPoints_nth)
  have 2: "\<forall>j<Suc 0. distanceBefore (coordinates (geometry ?r)) (Suc j) \<le> distance ?r / 2"
    unfolding routeOf_sel by (simp add: unevenPoints_before unevenPoints_segments)
  have 3: "distanceBefore (coordinates (geometry ?r)) (Suc 0)
           + segmentDistance (coordinates (geometry ?r) ! Suc 0)
               (coordinates (geometry ?r) ! Suc (Suc 0))
         > distance ?r / 2"
    unfolding routeOf_sel by (simp add: unevenPoints_before unevenPoints_nth unevenPoints_segments)
  have q: "(6371000 * (3 * pi / 180) / 2 - 6371000 * (pi / 180)) / (6371000 * (2 * pi / 180)) = 1 / 4"
    by (simp add: field_simps)
  have m: "length unevenPoints div 2 = Suc 0"
    by (simp add: unevenPoints_nth)
  show ?thesis
    using getMidpoint_first_crossing [OF 0 1 2 3] unfolding routeOf_sel Let_def m
    by (simp add: unevenPoints_before unevenPoints_nth unevenPoints_segments interpolate_def q)
qed

text \<open>
  Claim C3. When no segment crosses the half-distance threshold (every running total
  stays at or below half of the total length), \<open>getMidpoint\<close> of a route with a
  polyline returns the coordinate at the middle index, the number of points divided
  by 2 and rounded down, and does not fail.
\<close>

theorem getMidpoint_no_crossing:
  assumes "coordinates (geometry r) \<noteq> []"
    and "\<forall>j. Suc j < length (coordinates (geometry r))
           \<longrightarrow> distanceBefore (coordinates (geometry r)) (Suc j) \<le> distance r / 2"
  shows "getMidpoint (Some r) =
     Inr (Some \<lparr>lat = snd (coordinates (geometry r) ! (length (coordinates (geometry r)) div 2)),
                lng = fst (coordinates (geometry r) ! (length (coordinates (geometry r)) div 2))\<rparr>)"
proof -
  have "midpointLoop (coordinates (geometry r)) (distance r) 0
          (distanceBefore (coordinates (geometry r)) 0) = None"
    using assms(2) by (intro midpointLoop_none) simp
  then show ?thesis
    using assms(1) by (simp add: getMidpoint_fallback distanceBefore_0)
qed

text \<open>
  A total length that overstates the polyline: no segment reaches half of it, and the
  result is the second of the three points.
\<close>

theorem getMidpoint_no_crossing_witness:
  "getMidpoint (Some (routeOf threePoints 1000000000)) = Inr (Some \<lparr>lat = 0, lng = 1\<rparr>)"
proof -
  let ?r = "routeOf threePoints 1000000000"
  have 1: "coordinates (geometry ?r) \<noteq> []"
    unfolding routeOf_sel by (simp add: threePoints_def)
  have p: "6371000 * (2 * pi / 180) \<le> (500000000 :: real)"
    using pi_less_4 by simp
  have "distanceBefore threePoints (Suc j) \<le> 1000000000 / 2" if "Suc j < 3" for j
  proof -
    from that have "j = 0 \<or> j = Suc 0" by auto
    then show ?thesis using p pi_gt_zero by (auto simp: threePoints_before)
  qed
  then have 2: "\<forall>j. Suc j < length (coordinates (geometry ?r))
           \<longrightarrow> distanceBefore (coordinates (geometry ?r)) (Suc j) \<le> distance ?r / 2"
    unfolding routeOf_sel by (simp add: threePoints_nth)
  have m: "length threePoints div 2 = Suc 0"
    by (simp add: threePoints_nth)
  show ?thesis
    using getMidpoint_no_crossing [OF 1 2] unfolding routeOf_sel m
    by (simp add: threePoints_nth)
qed

text \<open>
  Claim C2, as the code has it. No polyline makes \<open>getMidpoint\<close> fail with an invalid
  route error. With fewer than two points the loop does not run: a polyline of one point
  yields that point, and an empty polyline makes the final indexing throw a
  \<open>TypeError\<close>.
\<close>

theorem getMidpoint_short_polyline:
  assumes "length (coordinates (geometry r)) < 2"
  shows "getMidpoint (Some r) =
     (case coordinates (geometry r) of
        [] \<Rightarrow> Inl TypeError
      | c # _ \<Rightarrow> Inr (Some \<lparr>lat = snd c, lng = fst c\<rparr>))"
proof -
  have "midpointLoop (coordinates (geometry r)) (distance r) 0 0 = None"
    using assms by (rule midpointLoop_short)
  then show ?thesis
    using assms by (cases "coordinates (geometry r)") (simp_all add: getMidpoint_fallback)
qed

theorem getMidpoint_short_polyline_witness:
  "getMidpoint (Some (routeOf [(-75, 40)] 1000)) = Inr (Some \<lparr>lat = 40, lng = -75\<rparr>)
   \<and> getMidpoint (Some (routeOf [] 1000)) = Inl TypeError"
  using getMidpoint_short_polyline [of "routeOf [(-75, 40)] 1000"]
        getMidpoint_short_polyline [of "routeOf [] 1000"]
  by (simp add: routeOf_def)

text \<open>A route of one point has a midpoint: the point itself.\<close>

theorem getMidpoint_one_point:
  "getMidpoint (Some (routeOf [(-75, 40)] 1000)) = Inr (Some \<lparr>lat = 40, lng = -75\<rparr>)"
  by (simp add: getMidpoint_def routeOf_def midpointLoop_end)

text \<open>
  Claim C10. \<open>getMidpoint\<close> returns a coordinate for every route whose polyline has at
  least one point, and the point itself for a polyline of one point; it returns
  \<open>null\<close> exactly when the route is \<open>null\<close> or \<open>undefined\<close>; the middle index is
  out of range exactly for the empty polyline, and that is the only failure.
\<close>

theorem getMidpoint_total:
  "(coordinates (geometry r) \<noteq> [] \<longrightarrow> (\<exists>p. getMidpoint (Some r) = Inr (Some p)))
   \<and> (coordinates (geometry r) = [c] \<longrightarrow> getMidpoint (Some r) = Inr (Some \<lparr>lat = snd c, lng = fst c\<rparr>))
   \<and> (getMidpoint route = Inr None \<longleftrightarrow> route = None)
   \<and> (getMidpoint (Some r) = Inl TypeError \<longleftrightarrow> coordinates (geometry r) = [])
   \<and> (length (coordinates (geometry r)) div 2 < length (coordinates (geometry r))
        \<longleftrightarrow> coordinates (geometry r) \<noteq> [])
   \<and> (\<forall>e. getMidpoint route = Inl e \<longrightarrow> e = TypeError \<and> (\<exists>r'. route = Some r' \<and> coordinates (geometry r') = []))"
proof -
  let ?cs = "coordinates (geometry r)"
  have 1: "\<exists>p. getMidpoint (Some r) = Inr (Some p)" if "?cs \<noteq> []"
    using that
    by (cases "midpointLoop ?cs (distance r) 0 0")
       (auto simp: getMidpoint_def Let_def middle_in_range)
  have 2: "getMidpoint (Some r) = Inr (Some \<lparr>lat = snd c, lng = fst c\<rparr>)" if "?cs = [c]"
    using that by (simp add: getMidpoint_def midpointLoop_end)
  have 3: "getMidpoint route = Inr None \<longleftrightarrow> route = None"
    by (auto simp: getMidpoint_def Let_def split: option.splits)
  have 4: "getMidpoint (Some r) = Inl TypeError \<longleftrightarrow> ?cs = []"
    by (auto simp: getMidpoint_def Let_def midpointLoop_end middle_in_range split: option.splits)
  have 5: "length ?cs div 2 < length ?cs \<longleftrightarrow> ?cs \<noteq> []"
    by (rule middle_in_range)
  have 6: "e = TypeError \<and> (\<exists>r'. route = Some r' \<and> coordinates (geometry r') = [])"
    if "getMidpoint route = Inl e" for e
    using that
    by (auto simp: getMidpoint_def Let_def middle_in_range split: option.splits if_splits)
  from 1 2 3 4 5 6 show ?thesis by blast
qed

theorem getMidpoint_total_witness:
  "getMidpoint None = Inr None
   \<and> getMidpoint (Some (routeOf [(-75, 40)] 1000)) = Inr (Some \<lparr>lat = 40, lng = -75\<rparr>)
   \<and> getMidpoint (Some (routeOf [] 1000)) = Inl TypeError"
  using getMidpoint_total [of "routeOf [(-75, 40)] 1000" "(-75, 40)" None]
        getMidpoint_total [of "routeOf [] 1000" "(0, 0)" None]
  by (simp add: routeOf_def)

subsection \<open>The geometric midpoint\<close>







lemma toRadians_cos_pos: "\<bar>x\<bar> < 90 \<Longrightarrow> 0 < cos (toRadians x)"
proof -
  assume a: "\<bar>x\<bar> < 90"
  then have "\<bar>x\<bar> * pi < 90 * pi" by (intro mult_strict_right_mono) simp_all
  then have "\<bar>toRadians x\<bar> < pi / 2" by (simp add: toRadians_def abs_mult)
  then show ?thesis by (intro cos_gt_zero_pi) linarith+
qed








end
